theory Spec2Isabelle
  imports Main
begin

section \<open>Python values, exceptions and the JSON encoder\<close>

text \<open>
  The two modules under study are \<^verbatim>\<open>demo_tools.py\<close> (the tool adapter,
  \<^verbatim>\<open>execute_tool\<close>) and \<^verbatim>\<open>demo_llm.py\<close> (the orchestrator,
  \<^verbatim>\<open>SimpleCrucible.chat\<close> and \<^verbatim>\<open>SimpleCrucible.reset\<close>).

  Values that travel through the tool adapter are Python objects. \<open>PFloat r\<close> is the
  float whose \<^verbatim>\<open>repr\<close> is \<open>r\<close> (floats are only carried, never computed with);
  \<open>PDict\<close> lists the items of a dict with string keys in insertion order;
  \<open>PObject t\<close> is an object of some other class \<open>t\<close> that is neither subscriptable
  nor known to the JSON encoder. Strings range over the code points below 256.
\<close>

datatype pyval =
    PNone
  | PBool bool
  | PInt int
  | PFloat string
  | PStr string
  | PList "pyval list"
  | PDict "(string \<times> pyval) list"
  | PObject string

text \<open>
  Exceptions are values. Every exception below is an instance of Python's
  \<^verbatim>\<open>Exception\<close>; \<open>Error\<close> stands for any exception class other than the three
  named ones and carries its message.
\<close>

datatype exn =
    KeyError string
  | TypeError string
  | JSONDecodeError string
  | Error string

definition squote :: string where
  "squote = [CHR 0x27]"

definition dquote :: string where
  "dquote = [CHR 0x22]"

definition backslash :: string where
  "backslash = [CHR 0x5C]"

text \<open>
  \<^verbatim>\<open>str(e)\<close>. For a \<^verbatim>\<open>KeyError\<close> it is the \<^verbatim>\<open>repr\<close> of the key; the keys
  looked up by this program are the three parameter names, whose \<^verbatim>\<open>repr\<close> is the
  name between single quotes.
\<close>

fun str_exn :: "exn \<Rightarrow> string" where
  "str_exn (KeyError k) = squote @ k @ squote"
| "str_exn (TypeError m) = m"
| "str_exn (JSONDecodeError m) = m"
| "str_exn (Error m) = m"

fun type_name :: "pyval \<Rightarrow> string" where
  "type_name PNone = ''NoneType''"
| "type_name (PBool b) = ''bool''"
| "type_name (PInt i) = ''int''"
| "type_name (PFloat r) = ''float''"
| "type_name (PStr s) = ''str''"
| "type_name (PList xs) = ''list''"
| "type_name (PDict kvs) = ''dict''"
| "type_name (PObject t) = t"

text \<open>
  \<^verbatim>\<open>obj[key]\<close> with a string key: a dict looks the key up and raises
  \<^verbatim>\<open>KeyError\<close> when it is absent; every other value raises \<^verbatim>\<open>TypeError\<close>
  (messages of CPython 3.11).
\<close>

fun py_getitem :: "pyval \<Rightarrow> string \<Rightarrow> exn + pyval" where
  "py_getitem (PDict kvs) k =
     (case map_of kvs k of None \<Rightarrow> Inl (KeyError k) | Some v \<Rightarrow> Inr v)"
| "py_getitem (PList xs) k =
     Inl (TypeError ''list indices must be integers or slices, not str'')"
| "py_getitem (PStr s) k =
     Inl (TypeError (''string indices must be integers, not '' @ squote @ ''str'' @ squote))"
| "py_getitem v k =
     Inl (TypeError (squote @ type_name v @ squote @ '' object is not subscriptable''))"

subsection \<open>\<^verbatim>\<open>json.dumps\<close> with its default options\<close>

definition hex_digit :: "nat \<Rightarrow> char" where
  "hex_digit n = ''0123456789abcdef'' ! (n mod 16)"

text \<open>The replacement of one character by \<^verbatim>\<open>py_encode_basestring_ascii\<close>.\<close>

definition escape_char :: "char \<Rightarrow> string" where
  "escape_char c =
     (if c = CHR 0x5C then backslash @ backslash
      else if c = CHR 0x22 then backslash @ dquote
      else if c = CHR 0x08 then backslash @ ''b''
      else if c = CHR 0x0C then backslash @ ''f''
      else if c = CHR 0x0A then backslash @ ''n''
      else if c = CHR 0x0D then backslash @ ''r''
      else if c = CHR 0x09 then backslash @ ''t''
      else if (32::nat) \<le> of_char c \<and> (of_char c :: nat) \<le> 126 then [c]
      else backslash @ ''u00''
             @ [hex_digit (of_char c div 16), hex_digit (of_char c mod 16)])"

definition encode_basestring_ascii :: "string \<Rightarrow> string" where
  "encode_basestring_ascii s = dquote @ concat (map escape_char s) @ dquote"

fun dec_nat :: "nat \<Rightarrow> string" where
  "dec_nat n =
     (if n < 10 then [hex_digit n] else dec_nat (n div 10) @ [hex_digit (n mod 10)])"

declare dec_nat.simps [simp del]

definition dec_int :: "int \<Rightarrow> string" where
  "dec_int i = (if i < 0 then ''-'' @ dec_nat (nat (- i)) else dec_nat (nat i))"

text \<open>A float is written by its \<^verbatim>\<open>repr\<close>, except for the three special values.\<close>

definition float_json :: "string \<Rightarrow> string" where
  "float_json r =
     (if r = ''nan'' then ''NaN''
      else if r = ''inf'' then ''Infinity''
      else if r = ''-inf'' then ''-Infinity''
      else r)"

fun join :: "string \<Rightarrow> string list \<Rightarrow> string" where
  "join sep [] = []"
| "join sep [s] = s"
| "join sep (s # t # ss) = s @ sep @ join sep (t # ss)"

text \<open>The first exception of a sequence of results, or all the values.\<close>

fun collect :: "(exn + 'a) list \<Rightarrow> exn + 'a list" where
  "collect [] = Inr []"
| "collect (Inl e # rs) = Inl e"
| "collect (Inr x # rs) =
     (case collect rs of Inl e \<Rightarrow> Inl e | Inr xs \<Rightarrow> Inr (x # xs))"

fun collect_items :: "(string \<times> (exn + string)) list \<Rightarrow> exn + string list" where
  "collect_items [] = Inr []"
| "collect_items ((k, Inl e) # rs) = Inl e"
| "collect_items ((k, Inr s) # rs) =
     (case collect_items rs of
        Inl e \<Rightarrow> Inl e
      | Inr ss \<Rightarrow> Inr ((encode_basestring_ascii k @ '': '' @ s) # ss))"

primrec json_dumps :: "pyval \<Rightarrow> exn + string" where
  "json_dumps PNone = Inr ''null''"
| "json_dumps (PBool b) = Inr (if b then ''true'' else ''false'')"
| "json_dumps (PInt i) = Inr (dec_int i)"
| "json_dumps (PFloat r) = Inr (float_json r)"
| "json_dumps (PStr s) = Inr (encode_basestring_ascii s)"
| "json_dumps (PList xs) =
     (case collect (map json_dumps xs) of
        Inl e \<Rightarrow> Inl e
      | Inr ss \<Rightarrow> Inr (''['' @ join '', '' ss @ '']''))"
| "json_dumps (PDict kvs) =
     (case collect_items (map (map_prod (\<lambda>k. k) json_dumps) kvs) of
        Inl e \<Rightarrow> Inl e
      | Inr ss \<Rightarrow> Inr (''{'' @ join '', '' ss @ ''}''))"
| "json_dumps (PObject t) =
     Inl (TypeError (''Object of type '' @ t @ '' is not JSON serializable''))"

section \<open>The tool adapter: \<^verbatim>\<open>demo_tools.execute_tool\<close>\<close>

text \<open>
  \<^verbatim>\<open>tools.identify_material\<close> is an opaque collaborator: a parameter that
  returns a value or raises. The body of the \<^verbatim>\<open>try\<close> block evaluates the three
  subscripts from left to right, calls the function and serialises the envelope.
\<close>

type_synonym domain_fn = "pyval \<Rightarrow> pyval \<Rightarrow> pyval \<Rightarrow> exn + pyval"

definition succeeded :: "pyval \<Rightarrow> pyval" where
  "succeeded result = PDict [(''success'', PBool True), (''result'', result)]"

definition failed :: "string \<Rightarrow> pyval" where
  "failed msg = PDict [(''success'', PBool False), (''error'', PStr msg)]"

definition try_identify :: "domain_fn \<Rightarrow> pyval \<Rightarrow> exn + string" where
  "try_identify identify_material arguments =
     (case py_getitem arguments ''peak_1'' of
        Inl e \<Rightarrow> Inl e
      | Inr p1 \<Rightarrow>
     (case py_getitem arguments ''peak_2'' of
        Inl e \<Rightarrow> Inl e
      | Inr p2 \<Rightarrow>
     (case py_getitem arguments ''formation_energy'' of
        Inl e \<Rightarrow> Inl e
      | Inr fe \<Rightarrow>
     (case identify_material p1 p2 fe of
        Inl e \<Rightarrow> Inl e
      | Inr result \<Rightarrow> json_dumps (succeeded result)))))"

definition execute_tool :: "domain_fn \<Rightarrow> string \<Rightarrow> pyval \<Rightarrow> exn + string" where
  "execute_tool identify_material tool_name arguments =
     (if tool_name = ''identify_material'' then
        (case try_identify identify_material arguments of
           Inr text \<Rightarrow> Inr text
         | Inl e \<Rightarrow> json_dumps (failed (str_exn e)))
      else json_dumps (failed (''Unknown tool: '' @ tool_name)))"

section \<open>The orchestrator: \<^verbatim>\<open>demo_llm.SimpleCrucible\<close>\<close>

text \<open>
  A message is a Python dict with a role, a content (\<open>None\<close> is Python's
  \<^verbatim>\<open>None\<close>) and two optional keys (\<open>None\<close>: the key is absent): the call
  requests of an assistant message and the call identifier of a tool message.
\<close>

datatype role = System | User | Assistant | Tool

record tool_call =
  call_id :: string
  call_name :: string
  call_arguments :: string

record message =
  role :: role
  content :: "string option"
  tool_calls :: "tool_call list option"
  tool_call_id :: "string option"

text \<open>The attributes of a \<^verbatim>\<open>SimpleCrucible\<close> that \<^verbatim>\<open>chat\<close> reads and writes.\<close>

record crucible =
  system_prompt :: string
  history :: "message list"

text \<open>
  The collaborators of \<^verbatim>\<open>chat\<close> are parameters: \<^verbatim>\<open>json.loads\<close> (a value or
  a raised exception for every payload text) and the model capability
  \<^verbatim>\<open>llm.create_chat_completion\<close>, which for the message sequence it is called
  with returns the message of the first choice (a dict with the key \<^verbatim>\<open>content\<close>
  and, when the model asks for calls, the key \<^verbatim>\<open>tool_calls\<close>; an absent, empty
  or \<^verbatim>\<open>None\<close> list of calls is falsy) or raises. One oracle serves one call of
  \<^verbatim>\<open>chat\<close>, in which every invocation sees a longer sequence than the one before.
  Console output is not modelled.
\<close>

type_synonym decoder = "string \<Rightarrow> exn + pyval"

type_synonym model = "message list \<Rightarrow> exn + message"

definition system_message :: "string \<Rightarrow> message" where
  "system_message text =
     \<lparr>role = System, content = Some text, tool_calls = None, tool_call_id = None\<rparr>"

definition user_message :: "string \<Rightarrow> message" where
  "user_message text =
     \<lparr>role = User, content = Some text, tool_calls = None, tool_call_id = None\<rparr>"

definition assistant_message :: "string option \<Rightarrow> message" where
  "assistant_message text =
     \<lparr>role = Assistant, content = text, tool_calls = None, tool_call_id = None\<rparr>"

definition call_message :: "tool_call \<Rightarrow> message" where
  "call_message tc =
     \<lparr>role = Assistant, content = None, tool_calls = Some [tc], tool_call_id = None\<rparr>"

definition tool_message :: "string \<Rightarrow> string \<Rightarrow> message" where
  "tool_message ident tool_result =
     \<lparr>role = Tool, content = Some tool_result, tool_calls = None,
      tool_call_id = Some ident\<rparr>"

definition fallback :: string where
  "fallback =
     ''I apologize, but I had trouble processing that request. Could you rephrase?''"

definition max_iterations :: nat where
  "max_iterations = 3"

text \<open>
  How the \<^verbatim>\<open>for\<close> loop is left without an exception: by the \<^verbatim>\<open>return\<close> of
  the final answer, or by running out of iterations.
\<close>

datatype loop_exit = Answered "string option" | Exhausted

text \<open>
  The loop, with the number of iterations left. It returns how it ended, the history
  and the local list \<^verbatim>\<open>messages\<close> (the turn session) as they are at that point.
\<close>

fun chat_loop ::
  "decoder \<Rightarrow> domain_fn \<Rightarrow> model \<Rightarrow> nat \<Rightarrow> message list \<Rightarrow> message list
     \<Rightarrow> (exn + loop_exit) \<times> message list \<times> message list"
where
  "chat_loop json_loads identify_material llm 0 hist messages =
     (Inr Exhausted, hist, messages)"
| "chat_loop json_loads identify_material llm (Suc n) hist messages =
     (case llm messages of
        Inl e \<Rightarrow> (Inl e, hist, messages)
      | Inr response \<Rightarrow>
          (case tool_calls response of
             Some (tc # others) \<Rightarrow>
               (case json_loads (call_arguments tc) of
                  Inl e \<Rightarrow> (Inl e, hist, messages)
                | Inr tool_args \<Rightarrow>
                    (case execute_tool identify_material (call_name tc) tool_args of
                       Inl e \<Rightarrow> (Inl e, hist, messages)
                     | Inr tool_result \<Rightarrow>
                         chat_loop json_loads identify_material llm n hist
                           (messages @ [call_message tc,
                                        tool_message (call_id tc) tool_result])))
           | _ \<Rightarrow>
               (Inr (Answered (content response)),
                hist @ [assistant_message (content response)],
                messages)))"

text \<open>
  One call of \<^verbatim>\<open>chat\<close>: the user message is appended to the history, the turn
  session is a new list (the system message followed by a copy of the history), and the
  loop runs. \<open>chat_turn\<close> also shows the turn session, which the Python discards.
\<close>

definition chat_turn ::
  "decoder \<Rightarrow> domain_fn \<Rightarrow> model \<Rightarrow> crucible \<Rightarrow> string
     \<Rightarrow> (exn + loop_exit) \<times> message list \<times> message list"
where
  "chat_turn json_loads identify_material llm self text =
     (let hist = history self @ [user_message text];
          messages = system_message (system_prompt self) # hist
      in chat_loop json_loads identify_material llm max_iterations hist messages)"

fun returned :: "exn + loop_exit \<Rightarrow> exn + string option" where
  "returned (Inl e) = Inl e"
| "returned (Inr (Answered answer)) = Inr answer"
| "returned (Inr Exhausted) = Inr (Some fallback)"

definition chat ::
  "decoder \<Rightarrow> domain_fn \<Rightarrow> model \<Rightarrow> crucible \<Rightarrow> string
     \<Rightarrow> (exn + string option) \<times> crucible"
where
  "chat json_loads identify_material llm self text =
     (case chat_turn json_loads identify_material llm self text of
        (exit, hist, messages) \<Rightarrow> (returned exit, self\<lparr>history := hist\<rparr>))"

definition reset :: "crucible \<Rightarrow> crucible" where
  "reset self = self\<lparr>history := []\<rparr>"

text \<open>A conversation: the state after a list of turns, each with its own oracle.\<close>

fun run_turns ::
  "decoder \<Rightarrow> domain_fn \<Rightarrow> crucible \<Rightarrow> (string \<times> model) list \<Rightarrow> crucible"
where
  "run_turns json_loads identify_material self [] = self"
| "run_turns json_loads identify_material self ((text, llm) # turns) =
     run_turns json_loads identify_material
       (snd (chat json_loads identify_material llm self text)) turns"

section \<open>Vocabulary of the properties\<close>

text \<open>The text of a failed envelope, as \<^verbatim>\<open>json.dumps\<close> writes it.\<close>

definition failed_text :: "string \<Rightarrow> string" where
  "failed_text msg =
     ''{'' @ dquote @ ''success'' @ dquote @ '': false, '' @ dquote @ ''error'' @ dquote
       @ '': '' @ encode_basestring_ascii msg @ ''}''"

text \<open>The text of a succeeded envelope around a result whose own text is \<open>s\<close>.\<close>

definition succeeded_text :: "string \<Rightarrow> string" where
  "succeeded_text s =
     ''{'' @ dquote @ ''success'' @ dquote @ '': true, '' @ dquote @ ''result'' @ dquote
       @ '': '' @ s @ ''}''"


text \<open>
  A message as the conversation history is meant to hold it: of role user or
  assistant, with neither call requests nor a call identifier.
\<close>

definition plain_message :: "message \<Rightarrow> bool" where
  "plain_message m =
     ((role m = User \<or> role m = Assistant) \<and> tool_calls m = None \<and> tool_call_id m = None)"

text \<open>A message of a tool exchange: an assistant message with call requests, or a tool message.\<close>

definition transient_message :: "message \<Rightarrow> bool" where
  "transient_message m =
     ((role m = Assistant \<and> tool_calls m \<noteq> None) \<or> (role m = Tool \<and> tool_call_id m \<noteq> None))"

text \<open>A session right after \<^verbatim>\<open>__init__\<close>: the prompt and an empty history.\<close>

definition fresh :: "string \<Rightarrow> crucible" where
  "fresh prompt = \<lparr>system_prompt = prompt, history = []\<rparr>"

text \<open>A turn is resolved when the loop is left by the \<^verbatim>\<open>return\<close> of a final answer.\<close>

fun resolved :: "exn + loop_exit \<Rightarrow> bool" where
  "resolved (Inr (Answered answer)) = True"
| "resolved exit = False"

fun all_resolved ::
  "decoder \<Rightarrow> domain_fn \<Rightarrow> crucible \<Rightarrow> (string \<times> model) list \<Rightarrow> bool"
where
  "all_resolved json_loads identify_material self [] = True"
| "all_resolved json_loads identify_material self ((text, llm) # turns) =
     (resolved (fst (chat_turn json_loads identify_material llm self text))
      \<and> all_resolved json_loads identify_material
            (snd (chat json_loads identify_material llm self text)) turns)"

fun count_resolved ::
  "decoder \<Rightarrow> domain_fn \<Rightarrow> crucible \<Rightarrow> (string \<times> model) list \<Rightarrow> nat"
where
  "count_resolved json_loads identify_material self [] = 0"
| "count_resolved json_loads identify_material self ((text, llm) # turns) =
     (if resolved (fst (chat_turn json_loads identify_material llm self text)) then 1 else 0)
     + count_resolved json_loads identify_material
         (snd (chat json_loads identify_material llm self text)) turns"

text \<open>A response cut down to its first call request, and a model that answers so.\<close>

fun first_only :: "message \<Rightarrow> message" where
  "first_only m =
     (case tool_calls m of
        Some (tc # others) \<Rightarrow> m\<lparr>tool_calls := Some [tc]\<rparr>
      | _ \<Rightarrow> m)"

definition first_call_only :: "model \<Rightarrow> model" where
  "first_call_only llm messages =
     (case llm messages of Inl e \<Rightarrow> Inl e | Inr response \<Rightarrow> Inr (first_only response))"

section \<open>Sample collaborators for closed instances\<close>

text \<open>
  The reference arguments of the tool test in \<^verbatim>\<open>demo_tools.py\<close>, their JSON
  text, and two other payloads: one that lacks \<^verbatim>\<open>formation_energy\<close> and one
  that is no JSON (\<^verbatim>\<open>json.loads\<close> rejects it at its first character).
\<close>

definition golden_arguments :: pyval where
  "golden_arguments =
     PDict [(''peak_1'', PInt 465), (''peak_2'', PInt 610),
            (''formation_energy'', PFloat ''-11.2'')]"

definition golden_payload :: string where
  "golden_payload =
     ''{'' @ dquote @ ''peak_1'' @ dquote @ '': 465, '' @ dquote @ ''peak_2'' @ dquote
       @ '': 610, '' @ dquote @ ''formation_energy'' @ dquote @ '': -11.2}''"

definition partial_arguments :: pyval where
  "partial_arguments = PDict [(''peak_1'', PInt 465), (''peak_2'', PInt 610)]"

definition partial_payload :: string where
  "partial_payload =
     ''{'' @ dquote @ ''peak_1'' @ dquote @ '': 465, '' @ dquote @ ''peak_2'' @ dquote
       @ '': 610}''"

definition broken_payload :: string where
  "broken_payload = ''peak_1=465''"

text \<open>
  \<^verbatim>\<open>json.loads\<close> on these three payloads. The closed instances decode no other
  text; the table reports any other text as undecodable.
\<close>

definition json_loads_table :: decoder where
  "json_loads_table payload =
     (if payload = golden_payload then Inr golden_arguments
      else if payload = partial_payload then Inr partial_arguments
      else Inl (JSONDecodeError ''Expecting value: line 1 column 1 (char 0)''))"

text \<open>Two domain functions: one returns a dict, one a Python \<^verbatim>\<open>set\<close>.\<close>

definition identify_ceria :: domain_fn where
  "identify_ceria peak_1 peak_2 formation_energy =
     Inr (PDict [(''material'', PStr ''CeO2''), (''confidence'', PFloat ''0.93'')])"

definition identify_set :: domain_fn where
  "identify_set peak_1 peak_2 formation_energy = Inr (PObject ''set'')"

definition request :: "string \<Rightarrow> string \<Rightarrow> tool_call" where
  "request ident payload =
     \<lparr>call_id = ident, call_name = ''identify_material'', call_arguments = payload\<rparr>"

definition calls_response :: "tool_call list \<Rightarrow> message" where
  "calls_response tcs =
     \<lparr>role = Assistant, content = None, tool_calls = Some tcs, tool_call_id = None\<rparr>"

text \<open>Models: one that answers at once, one that first calls the tool, and so on.\<close>

definition llm_answers :: model where
  "llm_answers messages = Inr (assistant_message (Some ''Please give both peaks.''))"

definition llm_calls_once :: model where
  "llm_calls_once messages =
     (if role (last messages) = Tool then Inr (assistant_message (Some ''This is ceria.''))
      else Inr (calls_response [request ''call_1'' golden_payload]))"

definition llm_always_calls :: model where
  "llm_always_calls messages = Inr (calls_response [request ''call_1'' golden_payload])"

definition llm_two_calls :: model where
  "llm_two_calls messages =
     Inr (calls_response [request ''call_1'' golden_payload,
                          request ''call_2'' partial_payload])"

definition llm_broken_payload :: model where
  "llm_broken_payload messages = Inr (calls_response [request ''call_1'' broken_payload])"

definition llm_third_broken :: model where
  "llm_third_broken messages =
     Inr (calls_response
            [request ''call_1'' (if length messages < 6 then golden_payload
                                 else broken_payload)])"

definition llm_down :: model where
  "llm_down messages = Inl (Error ''model unreachable'')"

section \<open>Properties of the tool adapter\<close>

lemma json_dumps_failed: "json_dumps (failed msg) = Inr (failed_text msg)"
  by (simp add: failed_def failed_text_def encode_basestring_ascii_def escape_char_def
      dquote_def)

lemma json_dumps_succeeded:
  "json_dumps v = Inr s \<Longrightarrow> json_dumps (succeeded v) = Inr (succeeded_text s)"
  by (simp add: succeeded_def succeeded_text_def encode_basestring_ascii_def escape_char_def
      dquote_def)

lemma execute_tool_returns: "\<exists>text. execute_tool im tool_name arguments = Inr text"
  by (cases "try_identify im arguments") (simp_all add: execute_tool_def json_dumps_failed)


lemma try_identify_golden:
  "try_identify im golden_arguments =
     (case im (PInt 465) (PInt 610) (PFloat ''-11.2'') of
        Inl e \<Rightarrow> Inl e
      | Inr result \<Rightarrow> json_dumps (succeeded result))"
  by (simp add: try_identify_def golden_arguments_def)

text \<open>
  Claim C4. For every tool name other than \<^verbatim>\<open>identify_material\<close>, and for every
  argument value, \<^verbatim>\<open>execute_tool\<close> raises nothing and returns the text of the
  failed envelope \<^verbatim>\<open>{"success": false, "error": "Unknown tool: <name>"}\<close>, the
  serialisation of the dict whose error is \<^verbatim>\<open>"Unknown tool: "\<close> followed by the
  name.
\<close>

theorem execute_tool_unknown:
  "tool_name \<noteq> ''identify_material'' \<Longrightarrow>
     execute_tool im tool_name arguments = json_dumps (failed (''Unknown tool: '' @ tool_name))
     \<and> execute_tool im tool_name arguments
         = Inr (failed_text (''Unknown tool: '' @ tool_name))"
  by (simp add: execute_tool_def json_dumps_failed)

theorem execute_tool_unknown_witness:
  "''lookup_phase'' \<noteq> ''identify_material''
   \<and> execute_tool identify_ceria ''lookup_phase'' golden_arguments
       = Inr (failed_text ''Unknown tool: lookup_phase'')"
  using execute_tool_unknown [of "''lookup_phase''" identify_ceria golden_arguments]
  by (simp add: json_dumps_failed)



text \<open>
  Claim C7 says that the reference arguments give a succeeded envelope around whatever
  value the domain function returns. The envelope is serialised inside the
  \<^verbatim>\<open>try\<close> block, so a returned value that \<^verbatim>\<open>json.dumps\<close> rejects (here a
  Python \<^verbatim>\<open>set\<close>) ends in the \<^verbatim>\<open>except\<close> branch: the domain function
  succeeds and \<^verbatim>\<open>execute_tool\<close> returns a failed envelope.
\<close>

theorem execute_tool_golden_counterexample:
  "identify_set (PInt 465) (PInt 610) (PFloat ''-11.2'') = Inr (PObject ''set'')
   \<and> execute_tool identify_set ''identify_material'' golden_arguments
       = Inr (failed_text ''Object of type set is not JSON serializable'')"
  by (simp add: execute_tool_def try_identify_golden identify_set_def succeeded_def
      json_dumps_failed)

text \<open>
  Claim C7, amended. With the arguments \<^verbatim>\<open>{peak_1: 465, peak_2: 610,
  formation_energy: -11.2}\<close> and the tool name \<^verbatim>\<open>identify_material\<close>, if the
  domain function returns \<open>v\<close> on exactly these three inputs and \<open>v\<close> is JSON
  serialisable, then \<^verbatim>\<open>execute_tool\<close> returns the text of the succeeded envelope
  \<^verbatim>\<open>{"success": true, "result": v}\<close>.
\<close>

theorem execute_tool_golden:
  "identify_material (PInt 465) (PInt 610) (PFloat ''-11.2'') = Inr v \<Longrightarrow>
   json_dumps v = Inr s \<Longrightarrow>
     execute_tool identify_material ''identify_material'' golden_arguments
       = json_dumps (succeeded v)
     \<and> execute_tool identify_material ''identify_material'' golden_arguments
         = Inr (succeeded_text s)"
  by (simp add: execute_tool_def try_identify_golden json_dumps_succeeded)

theorem execute_tool_golden_witness:
  "identify_ceria (PInt 465) (PInt 610) (PFloat ''-11.2'')
     = Inr (PDict [(''material'', PStr ''CeO2''), (''confidence'', PFloat ''0.93'')])
   \<and> (\<exists>s. json_dumps (PDict [(''material'', PStr ''CeO2''),
                                (''confidence'', PFloat ''0.93'')]) = Inr s
          \<and> execute_tool identify_ceria ''identify_material'' golden_arguments
              = Inr (succeeded_text s))"
proof -
  let ?v = "PDict [(''material'', PStr ''CeO2''), (''confidence'', PFloat ''0.93'')]"
  have h1: "identify_ceria (PInt 465) (PInt 610) (PFloat ''-11.2'') = Inr ?v"
    by (simp add: identify_ceria_def)
  obtain s where h2: "json_dumps ?v = Inr s"
    by (simp add: encode_basestring_ascii_def escape_char_def float_json_def)
  from execute_tool_golden [of identify_ceria ?v s] h1 h2 show ?thesis by blast
qed

text \<open>
  Claim C9. Whatever the history was, \<^verbatim>\<open>reset\<close> leaves it empty (and leaves the
  system prompt alone).
\<close>

theorem reset_clears_history:
  "history (reset self) = [] \<and> system_prompt (reset self) = system_prompt self"
  by (simp add: reset_def)

section \<open>Properties of the loop\<close>

lemma chat_loop_history:
  "chat_loop jl im llm n hist ms = (exit, hist', ms') \<Longrightarrow>
     hist' = (case exit of Inr (Answered answer) \<Rightarrow> hist @ [assistant_message answer]
              | _ \<Rightarrow> hist)"
proof (induction n arbitrary: ms)
  case 0
  then show ?case by auto
next
  case (Suc n)
  then show ?case
    by (auto split: sum.splits option.splits list.splits)
qed

lemma chat_loop_session:
  "chat_loop jl im llm n hist ms = (exit, hist', ms') \<Longrightarrow>
     \<exists>extras. ms' = ms @ extras \<and> list_all transient_message extras"
proof (induction n arbitrary: ms)
  case 0
  then show ?case by auto
next
  case (Suc n)
  show ?case
  proof (cases "llm ms")
    case (Inl e)
    with Suc.prems show ?thesis by auto
  next
    case (Inr response)
    note resp = this
    show ?thesis
    proof (cases "tool_calls response")
      case None
      with Suc.prems resp show ?thesis by auto
    next
      case (Some tcs)
      show ?thesis
      proof (cases tcs)
        case Nil
        with Suc.prems resp Some show ?thesis by auto
      next
        case (Cons tc others)
        show ?thesis
        proof (cases "jl (call_arguments tc)")
          case (Inl e)
          with Suc.prems resp Some Cons show ?thesis by auto
        next
          case (Inr tool_args)
          obtain tool_result where ex: "execute_tool im (call_name tc) tool_args = Inr tool_result"
            using execute_tool_returns by blast
          let ?new = "[call_message tc, tool_message (call_id tc) tool_result]"
          from Suc.prems resp Some Cons Inr ex
          have "chat_loop jl im llm n hist (ms @ ?new) = (exit, hist', ms')"
            by simp
          from Suc.IH [OF this] obtain extras where
            "ms' = (ms @ ?new) @ extras" "list_all transient_message extras"
            by blast
          then have "ms' = ms @ (?new @ extras) \<and> list_all transient_message (?new @ extras)"
            by (simp add: transient_message_def call_message_def tool_message_def)
          then show ?thesis by blast
        qed
      qed
    qed
  qed
qed

lemma chat_loop_first_call_only:
  "chat_loop jl im (first_call_only llm) n hist ms = chat_loop jl im llm n hist ms"
proof (induction n arbitrary: ms)
  case 0
  show ?case by simp
next
  case (Suc n)
  show ?case
  proof (cases "llm ms")
    case (Inl e)
    then show ?thesis by (simp add: first_call_only_def)
  next
    case (Inr response)
    then have "first_call_only llm ms = Inr (first_only response)"
      by (simp add: first_call_only_def)
    with Inr show ?thesis
      by (simp add: Suc.IH split: sum.splits option.splits list.splits)
  qed
qed


section \<open>Properties of \<^verbatim>\<open>chat\<close>\<close>

lemma chat_history:
  "history (snd (chat jl im llm self text)) =
     (case fst (chat_turn jl im llm self text) of
        Inr (Answered answer) \<Rightarrow> history self @ [user_message text, assistant_message answer]
      | _ \<Rightarrow> history self @ [user_message text])"
proof -
  obtain exit hist' ms' where
    r: "chat_loop jl im llm max_iterations (history self @ [user_message text])
          (system_message (system_prompt self) # history self @ [user_message text])
        = (exit, hist', ms')"
    by (metis prod_cases3)
  from chat_loop_history [OF r] r show ?thesis
    by (simp add: chat_def chat_turn_def split: sum.splits loop_exit.splits)
qed

lemma chat_returned:
  "fst (chat jl im llm self text) = returned (fst (chat_turn jl im llm self text))"
  by (simp add: chat_def split: prod.splits)

lemma chat_system_prompt:
  "system_prompt (snd (chat jl im llm self text)) = system_prompt self"
  by (simp add: chat_def split: prod.splits)

lemma run_turns_length:
  "length (history (run_turns jl im self turns))
     = length (history self) + length turns + count_resolved jl im self turns"
proof (induction turns arbitrary: self)
  case Nil
  show ?case by simp
next
  case (Cons turn turns)
  obtain input llm where t: "turn = (input, llm)" by (cases turn)
  have "length (history (snd (chat jl im llm self input)))
          = length (history self) + 1
            + (if resolved (fst (chat_turn jl im llm self input)) then 1 else 0)"
    by (cases "fst (chat_turn jl im llm self input)" rule: resolved.cases)
       (simp_all add: chat_history)
  with Cons.IH [of "snd (chat jl im llm self input)"] t show ?case by simp
qed

lemma all_resolved_count:
  "all_resolved jl im self turns \<Longrightarrow> count_resolved jl im self turns = length turns"
  by (induction jl im self turns rule: all_resolved.induct) simp_all

lemma chat_plain:
  "list_all plain_message (history self) \<Longrightarrow>
     list_all plain_message (history (snd (chat jl im llm self text)))"
  by (cases "fst (chat_turn jl im llm self text)" rule: resolved.cases)
     (simp_all add: chat_history plain_message_def user_message_def assistant_message_def)

lemma run_turns_plain:
  "list_all plain_message (history self) \<Longrightarrow>
     list_all plain_message (history (run_turns jl im self turns))"
proof (induction turns arbitrary: self)
  case Nil
  then show ?case by simp
next
  case (Cons turn turns)
  obtain input llm where t: "turn = (input, llm)" by (cases turn)
  from Cons.prems have "list_all plain_message (history (snd (chat jl im llm self input)))"
    by (rule chat_plain)
  from Cons.IH [OF this] t show ?case by simp
qed

section \<open>Closed runs\<close>

lemma execute_tool_ceria:
  "\<exists>tool_result. execute_tool identify_ceria ''identify_material'' golden_arguments = Inr tool_result"
  by (rule execute_tool_returns)

lemma turn_answers:
  "fst (chat_turn jl im llm_answers self input) = Inr (Answered (Some ''Please give both peaks.''))"
  by (simp add: chat_turn_def max_iterations_def numeral_3_eq_3 llm_answers_def
      assistant_message_def)

lemma turn_calls_once:
  "fst (chat_turn json_loads_table identify_ceria llm_calls_once self input)
     = Inr (Answered (Some ''This is ceria.''))"
proof -
  obtain tool_result where
    ex: "execute_tool identify_ceria ''identify_material'' golden_arguments = Inr tool_result"
    using execute_tool_ceria by blast
  show ?thesis
    by (simp add: chat_turn_def max_iterations_def numeral_3_eq_3 llm_calls_once_def
        assistant_message_def user_message_def calls_response_def request_def
        json_loads_table_def ex tool_message_def)
qed

lemma turn_always_calls:
  "fst (chat_turn json_loads_table identify_ceria llm_always_calls self input) = Inr Exhausted"
proof -
  obtain tool_result where
    ex: "execute_tool identify_ceria ''identify_material'' golden_arguments = Inr tool_result"
    using execute_tool_ceria by blast
  show ?thesis
    by (simp add: chat_turn_def max_iterations_def numeral_3_eq_3 llm_always_calls_def
        calls_response_def request_def json_loads_table_def ex)
qed

lemma turn_third_broken:
  "fst (chat_turn json_loads_table identify_ceria llm_third_broken (fresh prompt) input)
     = Inl (JSONDecodeError ''Expecting value: line 1 column 1 (char 0)'')"
proof -
  obtain tool_result where
    ex: "execute_tool identify_ceria ''identify_material'' golden_arguments = Inr tool_result"
    using execute_tool_ceria by blast
  have ne: "broken_payload \<noteq> golden_payload" "broken_payload \<noteq> partial_payload"
    by (simp_all add: broken_payload_def golden_payload_def partial_payload_def)
  show ?thesis
    by (simp add: chat_turn_def max_iterations_def numeral_3_eq_3 llm_third_broken_def
        calls_response_def request_def json_loads_table_def ex fresh_def ne)
qed

lemma turn_broken_payload:
  "fst (chat_turn json_loads_table im llm_broken_payload self input)
     = Inl (JSONDecodeError ''Expecting value: line 1 column 1 (char 0)'')"
proof -
  have ne: "broken_payload \<noteq> golden_payload" "broken_payload \<noteq> partial_payload"
    by (simp_all add: broken_payload_def golden_payload_def partial_payload_def)
  show ?thesis
    by (simp add: chat_turn_def Let_def max_iterations_def numeral_3_eq_3 llm_broken_payload_def
        calls_response_def request_def json_loads_table_def ne)
qed

text \<open>
  Claim C2. Starting from an empty history, after \<open>K\<close> turns that were all resolved the
  history has \<open>2 * K\<close> messages (from any history, \<open>2 * K\<close> more than before); and a
  turn that runs out of iterations leaves the history as it was plus the one user
  message.
\<close>

theorem history_length_after_turns:
  "(all_resolved jl im (fresh prompt) turns \<longrightarrow>
      length (history (run_turns jl im (fresh prompt) turns)) = 2 * length turns)
   \<and> (all_resolved jl im self turns \<longrightarrow>
      length (history (run_turns jl im self turns))
        = length (history self) + 2 * length turns)
   \<and> (fst (chat_turn jl im llm self input) = Inr Exhausted \<longrightarrow>
      history (snd (chat jl im llm self input)) = history self @ [user_message input])"
proof (intro conjI impI)
  assume "all_resolved jl im (fresh prompt) turns"
  then have "count_resolved jl im (fresh prompt) turns = length turns"
    by (rule all_resolved_count)
  then show "length (history (run_turns jl im (fresh prompt) turns)) = 2 * length turns"
    by (simp add: run_turns_length fresh_def)
next
  assume "all_resolved jl im self turns"
  then have "count_resolved jl im self turns = length turns"
    by (rule all_resolved_count)
  then show "length (history (run_turns jl im self turns))
               = length (history self) + 2 * length turns"
    by (simp add: run_turns_length)
next
  assume "fst (chat_turn jl im llm self input) = Inr Exhausted"
  then show "history (snd (chat jl im llm self input)) = history self @ [user_message input]"
    by (simp add: chat_history)
qed

theorem history_length_after_turns_witness:
  "all_resolved json_loads_table identify_ceria (fresh ''CRUCIBLE'')
     [(''peaks 465 and 610'', llm_answers), (''energy -11.2'', llm_calls_once)]
   \<and> length (history (run_turns json_loads_table identify_ceria (fresh ''CRUCIBLE'')
       [(''peaks 465 and 610'', llm_answers), (''energy -11.2'', llm_calls_once)])) = 4
   \<and> fst (chat_turn json_loads_table identify_ceria llm_always_calls (fresh ''CRUCIBLE'')
            ''identify it'') = Inr Exhausted
   \<and> history (snd (chat json_loads_table identify_ceria llm_always_calls (fresh ''CRUCIBLE'')
                     ''identify it'')) = [user_message ''identify it'']"
proof -
  let ?turns = "[(''peaks 465 and 610'', llm_answers), (''energy -11.2'', llm_calls_once)]"
  have r: "all_resolved json_loads_table identify_ceria (fresh ''CRUCIBLE'') ?turns"
    by (simp add: turn_answers turn_calls_once)
  have x: "fst (chat_turn json_loads_table identify_ceria llm_always_calls
                  (fresh ''CRUCIBLE'') ''identify it'') = Inr Exhausted"
    by (rule turn_always_calls)
  from history_length_after_turns
    [of json_loads_table identify_ceria "''CRUCIBLE''" ?turns "fresh ''CRUCIBLE''"
        llm_always_calls "''identify it''"]
    r x
  show ?thesis by (simp add: fresh_def)
qed




text \<open>
  Claim C1 says that an argument payload that is not valid JSON becomes a failed envelope
  and is never raised to the caller. The payload is decoded in \<^verbatim>\<open>chat\<close>, outside
  any \<^verbatim>\<open>try\<close> block and before \<^verbatim>\<open>execute_tool\<close> is called: with the payload
  \<^verbatim>\<open>peak_1=465\<close> the call of \<^verbatim>\<open>chat\<close> raises \<^verbatim>\<open>JSONDecodeError\<close>.
\<close>

theorem decode_error_counterexample:
  "chat json_loads_table identify_ceria llm_broken_payload (fresh ''CRUCIBLE'') ''identify it''
     = (Inl (JSONDecodeError ''Expecting value: line 1 column 1 (char 0)''),
        \<lparr>system_prompt = ''CRUCIBLE'', history = [user_message ''identify it'']\<rparr>)"
proof -
  have ne: "broken_payload \<noteq> golden_payload" "broken_payload \<noteq> partial_payload"
    by (simp_all add: broken_payload_def golden_payload_def partial_payload_def)
  show ?thesis
    by (simp add: chat_def chat_turn_def Let_def max_iterations_def numeral_3_eq_3
        llm_broken_payload_def calls_response_def request_def json_loads_table_def
        fresh_def ne)
qed

text \<open>
  Claim C1, amended. When the first call request of a model response has an argument
  payload that \<^verbatim>\<open>json.loads\<close> rejects, the loop stops there with that exception,
  the history and the turn session unchanged; in the first iteration this means that
  \<^verbatim>\<open>chat\<close> raises the decode error to its caller and the history is the previous
  history plus the user message.
\<close>

theorem decode_error_propagates:
  assumes "llm messages = Inr response"
    and "tool_calls response = Some (tc # others)"
    and "json_loads (call_arguments tc) = Inl e"
  shows "chat_loop json_loads im llm (Suc n) hist messages = (Inl e, hist, messages)
         \<and> (messages = system_message (system_prompt self) # history self @ [user_message input]
              \<longrightarrow> chat json_loads im llm self input
                    = (Inl e, self\<lparr>history := history self @ [user_message input]\<rparr>))"
  using assms
  by (auto simp: chat_def chat_turn_def Let_def max_iterations_def numeral_3_eq_3)

theorem decode_error_propagates_witness:
  "llm_broken_payload [system_message ''CRUCIBLE'', user_message ''identify it'']
     = Inr (calls_response [request ''call_1'' broken_payload])
   \<and> tool_calls (calls_response [request ''call_1'' broken_payload])
       = Some (request ''call_1'' broken_payload # [])
   \<and> json_loads_table (call_arguments (request ''call_1'' broken_payload))
       = Inl (JSONDecodeError ''Expecting value: line 1 column 1 (char 0)'')
   \<and> fst (chat json_loads_table identify_ceria llm_broken_payload (fresh ''CRUCIBLE'')
            ''identify it'')
       = Inl (JSONDecodeError ''Expecting value: line 1 column 1 (char 0)'')"
proof -
  let ?ms = "[system_message ''CRUCIBLE'', user_message ''identify it'']"
  let ?tc = "request ''call_1'' broken_payload"
  let ?e = "JSONDecodeError ''Expecting value: line 1 column 1 (char 0)''"
  have h1: "llm_broken_payload ?ms = Inr (calls_response [?tc])"
    by (simp add: llm_broken_payload_def)
  have h2: "tool_calls (calls_response [?tc]) = Some (?tc # [])"
    by (simp add: calls_response_def)
  have h3: "json_loads_table (call_arguments ?tc) = Inl ?e"
    by (simp add: request_def json_loads_table_def broken_payload_def golden_payload_def
        partial_payload_def)
  from decode_error_propagates
    [where llm = llm_broken_payload and messages = ?ms and response = "calls_response [?tc]"
       and tc = ?tc and others = "[]" and json_loads = json_loads_table and e = ?e
       and im = identify_ceria and n = 2 and hist = "[user_message ''identify it'']"
       and self = "fresh ''CRUCIBLE''" and input = "''identify it''"]
    h1 h2 h3
  show ?thesis by (simp add: fresh_def)
qed

text \<open>
  Claim C6. Only the first call request of a response is looked at: a model whose
  responses are cut down to their first call request gives the same result, the same
  history and the same turn session; and when the payload of the first request decodes,
  the iteration calls \<^verbatim>\<open>execute_tool\<close> with the name and arguments of that first
  request and appends to the turn session exactly the assistant message carrying that
  one request and the tool message carrying its identifier and result.
\<close>

theorem only_first_call_honoured:
  "chat_turn json_loads im (first_call_only llm) self input
     = chat_turn json_loads im llm self input
   \<and> chat json_loads im (first_call_only llm) self input
     = chat json_loads im llm self input
   \<and> (llm messages = Inr response \<and> tool_calls response = Some (tc # others)
        \<and> json_loads (call_arguments tc) = Inr tool_args \<longrightarrow>
      (\<exists>tool_result.
         execute_tool im (call_name tc) tool_args = Inr tool_result
         \<and> chat_loop json_loads im llm (Suc n) hist messages
             = chat_loop json_loads im llm n hist
                 (messages @ [call_message tc, tool_message (call_id tc) tool_result])))"
proof (intro conjI impI)
  show t: "chat_turn json_loads im (first_call_only llm) self input
             = chat_turn json_loads im llm self input"
    by (simp add: chat_turn_def chat_loop_first_call_only)
  show "chat json_loads im (first_call_only llm) self input
          = chat json_loads im llm self input"
    by (simp add: chat_def t)
next
  assume h: "llm messages = Inr response \<and> tool_calls response = Some (tc # others)
               \<and> json_loads (call_arguments tc) = Inr tool_args"
  obtain tool_result where ex: "execute_tool im (call_name tc) tool_args = Inr tool_result"
    using execute_tool_returns by blast
  with h have "chat_loop json_loads im llm (Suc n) hist messages
                 = chat_loop json_loads im llm n hist
                     (messages @ [call_message tc, tool_message (call_id tc) tool_result])"
    by simp
  with ex show "\<exists>tool_result.
         execute_tool im (call_name tc) tool_args = Inr tool_result
         \<and> chat_loop json_loads im llm (Suc n) hist messages
             = chat_loop json_loads im llm n hist
                 (messages @ [call_message tc, tool_message (call_id tc) tool_result])"
    by blast
qed

theorem only_first_call_honoured_witness:
  "llm_two_calls [system_message ''CRUCIBLE'', user_message ''identify it'']
     = Inr (calls_response [request ''call_1'' golden_payload,
                            request ''call_2'' partial_payload])
   \<and> json_loads_table (call_arguments (request ''call_1'' golden_payload))
       = Inr golden_arguments
   \<and> (\<exists>tool_result.
         execute_tool identify_ceria ''identify_material'' golden_arguments = Inr tool_result
         \<and> chat_loop json_loads_table identify_ceria llm_two_calls (Suc 0)
               [user_message ''identify it'']
               [system_message ''CRUCIBLE'', user_message ''identify it'']
             = (Inr Exhausted, [user_message ''identify it''],
                [system_message ''CRUCIBLE'', user_message ''identify it'',
                 call_message (request ''call_1'' golden_payload),
                 tool_message ''call_1'' tool_result]))"
proof -
  let ?ms = "[system_message ''CRUCIBLE'', user_message ''identify it'']"
  let ?tc = "request ''call_1'' golden_payload"
  let ?others = "[request ''call_2'' partial_payload]"
  have h1: "llm_two_calls ?ms = Inr (calls_response (?tc # ?others))"
    by (simp add: llm_two_calls_def)
  have h2: "tool_calls (calls_response (?tc # ?others)) = Some (?tc # ?others)"
    by (simp add: calls_response_def)
  have h3: "json_loads_table (call_arguments ?tc) = Inr golden_arguments"
    by (simp add: request_def json_loads_table_def)
  from only_first_call_honoured
    [of json_loads_table identify_ceria llm_two_calls "fresh ''CRUCIBLE''" "''identify it''"
        ?ms "calls_response (?tc # ?others)" ?tc ?others golden_arguments 0
        "[user_message ''identify it'']"]
    h1 h2 h3
  show ?thesis by (simp add: request_def)
qed

lemma chat_turn_session:
  "\<exists>extras. snd (snd (chat_turn jl im llm self input))
             = system_message (system_prompt self) # history self @ [user_message input] @ extras
           \<and> list_all transient_message extras"
proof -
  obtain exit hist' ms' where
    r: "chat_loop jl im llm max_iterations (history self @ [user_message input])
          (system_message (system_prompt self) # history self @ [user_message input])
        = (exit, hist', ms')"
    by (metis prod_cases3)
  from chat_loop_session [OF r] r show ?thesis
    by (simp add: chat_turn_def)
qed

text \<open>
  Claim C8. A call of \<^verbatim>\<open>chat\<close>, however it ends, keeps the history free of
  anything but user and assistant messages without call requests or call identifiers,
  so every history reached from a fresh session is of that kind; the call appends the
  user message and at most the final assistant message; and the system message and the
  messages of the tool exchanges are in the turn session only.
\<close>

theorem history_holds_plain_messages:
  "(list_all plain_message (history self) \<longrightarrow>
      list_all plain_message (history (snd (chat jl im llm self input))))
   \<and> list_all plain_message (history (run_turns jl im (fresh prompt) turns))
   \<and> (history (snd (chat jl im llm self input)) = history self @ [user_message input]
        \<or> (\<exists>answer. history (snd (chat jl im llm self input))
                       = history self @ [user_message input, assistant_message answer]))
   \<and> (\<exists>extras. snd (snd (chat_turn jl im llm self input))
                  = system_message (system_prompt self) # history self
                      @ [user_message input] @ extras
                \<and> list_all transient_message extras)"
proof (intro conjI impI)
  assume "list_all plain_message (history self)"
  then show "list_all plain_message (history (snd (chat jl im llm self input)))"
    by (rule chat_plain)
next
  have "list_all plain_message (history (fresh prompt))"
    by (simp add: fresh_def)
  then show "list_all plain_message (history (run_turns jl im (fresh prompt) turns))"
    by (rule run_turns_plain)
next
  show "history (snd (chat jl im llm self input)) = history self @ [user_message input]
        \<or> (\<exists>answer. history (snd (chat jl im llm self input))
                       = history self @ [user_message input, assistant_message answer])"
    by (cases "fst (chat_turn jl im llm self input)" rule: resolved.cases)
       (auto simp: chat_history)
next
  show "\<exists>extras. snd (snd (chat_turn jl im llm self input))
                  = system_message (system_prompt self) # history self
                      @ [user_message input] @ extras
                \<and> list_all transient_message extras"
    by (rule chat_turn_session)
qed

theorem history_holds_plain_messages_witness:
  "list_all plain_message (history (fresh ''CRUCIBLE''))
   \<and> list_all plain_message
       (history (snd (chat json_loads_table identify_ceria llm_calls_once (fresh ''CRUCIBLE'')
                        ''identify it'')))
   \<and> history (snd (chat json_loads_table identify_ceria llm_calls_once (fresh ''CRUCIBLE'')
                     ''identify it''))
       = [user_message ''identify it'', assistant_message (Some ''This is ceria.'')]"
proof -
  have h: "list_all plain_message (history (fresh ''CRUCIBLE''))"
    by (simp add: fresh_def)
  have e: "history (snd (chat json_loads_table identify_ceria llm_calls_once
                           (fresh ''CRUCIBLE'') ''identify it''))
             = [user_message ''identify it'', assistant_message (Some ''This is ceria.'')]"
    by (simp add: chat_history turn_calls_once fresh_def)
  from history_holds_plain_messages
    [of "fresh ''CRUCIBLE''" json_loads_table identify_ceria llm_calls_once "''identify it''"
        "''CRUCIBLE''" "[]"]
    h e
  show ?thesis by simp
qed

text \<open>
  Claim C10. The first invocation of the model already sees the user message of the
  turn; if that invocation raises, \<^verbatim>\<open>chat\<close> raises the same exception and the
  history is the previous history plus the user message. An invocation that raises in
  any iteration ends the loop with that exception; and whenever \<^verbatim>\<open>chat\<close> raises,
  the history is the previous history plus the user message, with no assistant message.
\<close>

theorem raise_keeps_user_message:
  "(llm (system_message (system_prompt self) # history self @ [user_message input]) = Inl e
      \<longrightarrow> chat jl im llm self input
            = (Inl e, self\<lparr>history := history self @ [user_message input]\<rparr>))
   \<and> (llm messages = Inl e
      \<longrightarrow> chat_loop jl im llm (Suc n) hist messages = (Inl e, hist, messages))
   \<and> (fst (chat jl im llm self input) = Inl e'
      \<longrightarrow> history (snd (chat jl im llm self input)) = history self @ [user_message input])"
proof (intro conjI impI)
  assume "llm (system_message (system_prompt self) # history self @ [user_message input]) = Inl e"
  then show "chat jl im llm self input
               = (Inl e, self\<lparr>history := history self @ [user_message input]\<rparr>)"
    by (simp add: chat_def chat_turn_def Let_def max_iterations_def numeral_3_eq_3)
next
  assume "llm messages = Inl e"
  then show "chat_loop jl im llm (Suc n) hist messages = (Inl e, hist, messages)"
    by simp
next
  assume "fst (chat jl im llm self input) = Inl e'"
  then have "returned (fst (chat_turn jl im llm self input)) = Inl e'"
    by (simp add: chat_returned)
  then have "\<exists>x. fst (chat_turn jl im llm self input) = Inl x"
    by (cases "fst (chat_turn jl im llm self input)" rule: returned.cases) simp_all
  then show "history (snd (chat jl im llm self input)) = history self @ [user_message input]"
    by (auto simp: chat_history)
qed

theorem raise_keeps_user_message_witness:
  "llm_down (system_message (system_prompt (fresh ''CRUCIBLE''))
             # history (fresh ''CRUCIBLE'') @ [user_message ''identify it''])
     = Inl (Error ''model unreachable'')
   \<and> chat json_loads_table identify_ceria llm_down (fresh ''CRUCIBLE'') ''identify it''
       = (Inl (Error ''model unreachable''),
          \<lparr>system_prompt = ''CRUCIBLE'', history = [user_message ''identify it'']\<rparr>)
   \<and> history (snd (chat json_loads_table identify_ceria llm_down (fresh ''CRUCIBLE'')
                     ''identify it'')) = [user_message ''identify it'']"
proof -
  have h: "llm_down (system_message (system_prompt (fresh ''CRUCIBLE''))
             # history (fresh ''CRUCIBLE'') @ [user_message ''identify it''])
           = Inl (Error ''model unreachable'')"
    by (simp add: llm_down_def)
  from raise_keeps_user_message
    [of llm_down "fresh ''CRUCIBLE''" "''identify it''" "Error ''model unreachable''"
        json_loads_table identify_ceria
        "[system_message ''CRUCIBLE'', user_message ''identify it'']" 0
        "[user_message ''identify it'']" "Error ''model unreachable''"]
    h
  show ?thesis by (simp add: fresh_def llm_down_def)
qed

end
